theory Spec2Isabelle
  imports Main "HOL-Library.Sublist"
begin

section \<open>Python values and exceptions\<close>

text \<open>
  The agent layer (\<^verbatim>\<open>agent/agent.py\<close>, \<^verbatim>\<open>agent/tools.py\<close>, \<^verbatim>\<open>agent/observability.py\<close>)
  handles values decoded from JSON. A Python \<^verbatim>\<open>dict\<close> is an association list in
  insertion order whose lookup is \<open>map_of\<close>. Numbers with a fraction or an exponent
  (Python floats) are not represented: the code only tests them for truth and converts them
  with \<^verbatim>\<open>int()\<close>.
\<close>

datatype json =
    JNull
  | JBool bool
  | JInt int
  | JStr string
  | JArr "json list"
  | JObj "(string \<times> json) list"

type_synonym pydict = "(string \<times> json) list"

text \<open>
  An exception is the class the \<^verbatim>\<open>except\<close> clauses of the source tell apart, together
  with the text \<^verbatim>\<open>str(exc)\<close> yields. \<open>JSONDecodeError\<close> is the exception of the
  \<^verbatim>\<open>json\<close> module, a \<^verbatim>\<open>ValueError\<close>; \<open>RequestsJSONDecodeError\<close> is the exception of
  \<^verbatim>\<open>response.json()\<close>, which derives from both \<^verbatim>\<open>requests.RequestException\<close> and
  \<^verbatim>\<open>ValueError\<close>; \<open>RecursionError\<close> is a \<^verbatim>\<open>RuntimeError\<close>; \<open>OtherException\<close>
  stands for every other subclass of \<^verbatim>\<open>Exception\<close>.
\<close>

datatype exc_class =
    TypeError | ValueError | JSONDecodeError | KeyError | IndexError | AttributeError
  | OverflowError | RuntimeError | RecursionError | RequestException | RequestsJSONDecodeError
  | OtherException

datatype exn = Exn (exc_class: exc_class) (exc_str: string)

definition is_TypeError :: "exn \<Rightarrow> bool" where
  "is_TypeError e = (exc_class e = TypeError)"

definition is_RequestException :: "exn \<Rightarrow> bool" where
  "is_RequestException e = (exc_class e = RequestException \<or> exc_class e = RequestsJSONDecodeError)"

definition is_ValueError :: "exn \<Rightarrow> bool" where
  "is_ValueError e =
     (exc_class e = ValueError \<or> exc_class e = JSONDecodeError
      \<or> exc_class e = RequestsJSONDecodeError)"

definition is_JSONDecodeError :: "exn \<Rightarrow> bool" where
  "is_JSONDecodeError e = (exc_class e = JSONDecodeError)"

subsection \<open>Decimal rendering and \<^verbatim>\<open>repr\<close> of a string\<close>

definition digit_char :: "nat \<Rightarrow> char" where
  "digit_char d = char_of (of_char CHR ''0'' + d)"

function py_str_nat :: "nat \<Rightarrow> string" where
  "py_str_nat n = (if n < 10 then [digit_char n] else py_str_nat (n div 10) @ [digit_char (n mod 10)])"
  by pat_completeness auto
termination
  by (relation "measure id") auto

definition py_str_int :: "int \<Rightarrow> string" where
  "py_str_int i = (if i < 0 then CHR ''-'' # py_str_nat (nat (- i)) else py_str_nat (nat i))"

definition hex_char :: "nat \<Rightarrow> char" where
  "hex_char d = (if d < 10 then digit_char d else char_of (of_char CHR ''a'' + (d - 10)))"

definition repr_char :: "char \<Rightarrow> char \<Rightarrow> string" where
  "repr_char q c =
     (if c = CHR 0x5C then [CHR 0x5C, CHR 0x5C]
      else if c = q then [CHR 0x5C, q]
      else if c = CHR 0x0A then [CHR 0x5C, CHR ''n'']
      else if c = CHR 0x0D then [CHR 0x5C, CHR ''r'']
      else if c = CHR 0x09 then [CHR 0x5C, CHR ''t'']
      else if (of_char c :: nat) < 32 \<or> c = CHR 0x7F then
        [CHR 0x5C, CHR ''x'', hex_char (of_char c div 16), hex_char (of_char c mod 16)]
      else [c])"

definition py_repr_str :: "string \<Rightarrow> string" where
  "py_repr_str s =
     (let q = (if CHR 0x27 \<in> set s \<and> CHR 0x22 \<notin> set s then CHR 0x22 else CHR 0x27)
      in q # concat (map (repr_char q) s) @ [q])"

section \<open>The system prompt and \<^verbatim>\<open>str.format\<close>\<close>

text \<open>
  \<^verbatim>\<open>SYSTEM_PROMPT_TEMPLATE\<close> (agent.py, lines 44 to 79), one literal per source line,
  in four parts: lines 45 to 48, line 49, lines 50 to 67 and lines 68 to 78.
\<close>

definition prompt_role :: string where
  \<open>prompt_role =
   ''You are an expert licensed pharmacist assistant for an AI-powered pharmacy. '' @
   ''You must ALWAYS use the available tools to check medicine availability, '' @
   ''stock, and prescription requirements before making any final decision. '' @
   ''Never hallucinate medicine availability or stock levels.\<newline>\<newline>''\<close>

definition prompt_customer :: string where
  \<open>prompt_customer = ''Current customer id: {customer_id}.\<newline>\<newline>''\<close>

definition prompt_duties :: string where
  \<open>prompt_duties =
   ''Your responsibilities:\<newline>'' @
   ''1. Understand messy natural language requests about medicines and orders.\<newline>'' @
   ''2. Extract the medicine name and quantity from the user's input.\<newline>'' @
   ''3. Use the check_medicine_availability tool to verify availability.\<newline>'' @
   ''4. If the medicine is available and does not require a prescription, '' @
   ''   use create_order with the current customer id to place an order.\<newline>'' @
   ''5. If the medicine requires a prescription, you may still create an order, '' @
   ''   but it will be pending until verification.\<newline>'' @
   ''6. If the user asks about their past orders, use get_customer_history.\<newline>'' @
   ''7. If the user asks whether they need any refills or is running out of medicine, '' @
   ''   use get_refill_alerts with the current customer id to check for predicted refills.\<newline>'' @
   ''8. Never approve or reject an order without consulting tools.\<newline>\<newline>'' @
   ''When you are ready to answer the user, respond with a single JSON object only, '' @
   ''without any extra text. The JSON must contain at least these keys:\<newline>'' @
   ''- message: human readable explanation for the user\<newline>'' @
   ''- status: one of 'approved', 'pending', 'rejected', 'refill_suggested', 'ok', or 'error'\<newline>'' @
   ''- order_id: include this key with the numeric id when an order is created, '' @
   ''  otherwise you may omit it or set it to null.\<newline>\<newline>''\<close>

definition prompt_examples :: string where
  \<open>prompt_examples =
   ''Examples of valid responses (do not quote or wrap them in text):\<newline>'' @
   ''{ "message": "Your order for 5 Paracetamol has been approved.", '' @
   ''"order_id": 12, "status": "approved" }\<newline>'' @
   ''{ "message": "Paracetamol is currently out of stock.", "status": "rejected" }\<newline>'' @
   ''{ "message": "This medicine requires a prescription. Your order is pending verification.", '' @
   ''"order_id": 12, "status": "pending" }\<newline>'' @
   ''{ "message": "You are due for a refill of Paracetamol. Would you like to place an order?", '' @
   ''"status": "refill_suggested", "refill_items": ["Paracetamol"] }\<newline>'' @
   ''{ "message": "You are not due for any refills at this time.", "status": "ok" }\<newline>\<newline>'' @
   ''If the backend is unavailable or a tool fails, clearly explain this in the '' @
   ''message field and set status to 'rejected' or 'error' as appropriate.''\<close>

definition SYSTEM_PROMPT_TEMPLATE :: string where
  "SYSTEM_PROMPT_TEMPLATE = prompt_role @ prompt_customer @ prompt_duties @ prompt_examples"

text \<open>
  \<^verbatim>\<open>str.format\<close> called with keyword arguments only, as line 208 calls it. The markup
  is read left to right: \<^verbatim>\<open>{{\<close> and \<^verbatim>\<open>}}\<close> are literal braces, any other
  \<^verbatim>\<open>{\<close> opens a replacement field that runs to its matching \<^verbatim>\<open>}\<close>. The field name
  ends at the first \<^verbatim>\<open>:\<close> or \<^verbatim>\<open>!\<close> outside square brackets; its first part (up to a
  \<^verbatim>\<open>.\<close> or \<^verbatim>\<open>[\<close>) is looked up among the keyword arguments and a missing name
  raises \<^verbatim>\<open>KeyError\<close>; an empty or numeric first part indexes the positional
  arguments, of which there are none. A field found and written without accessor,
  conversion and format specification is replaced by \<^verbatim>\<open>str\<close> of its value; formatting
  a found value in any other way is left to the parameter \<open>fmt\<close>.
\<close>

datatype field = Field (field_name: string) (conversion: "char option") (format_spec: string)

fun scan_name :: "bool \<Rightarrow> string \<Rightarrow> string \<Rightarrow> exn + (string \<times> char \<times> string)" where
  "scan_name inb acc [] = Inl (Exn ValueError ''expected '}' before end of string'')"
| "scan_name inb acc (c # cs) =
     (if inb then scan_name (c \<noteq> CHR '']'') (c # acc) cs
      else if c = CHR ''{'' then Inl (Exn ValueError ''unexpected '{' in field name'')
      else if c = CHR ''['' then scan_name True (c # acc) cs
      else if c = CHR ''}'' \<or> c = CHR '':'' \<or> c = CHR ''!'' then Inr (rev acc, c, cs)
      else scan_name False (c # acc) cs)"

fun scan_spec :: "nat \<Rightarrow> string \<Rightarrow> string \<Rightarrow> exn + (string \<times> string)" where
  "scan_spec count acc [] = Inl (Exn ValueError ''unmatched '{' in format spec'')"
| "scan_spec count acc (c # cs) =
     (if c = CHR ''{'' then scan_spec (Suc count) (c # acc) cs
      else if c = CHR ''}'' then
        (if count = 1 then Inr (rev acc, cs) else scan_spec (count - 1) (c # acc) cs)
      else scan_spec count (c # acc) cs)"

definition with_spec :: "string \<Rightarrow> char option \<Rightarrow> string \<Rightarrow> exn + (field \<times> string)" where
  "with_spec name conv s =
     (case scan_spec 1 [] s of
        Inl e \<Rightarrow> Inl e
      | Inr (spec, rest) \<Rightarrow> Inr (Field name conv spec, rest))"

definition parse_field :: "string \<Rightarrow> exn + (field \<times> string)" where
  "parse_field s =
     (case scan_name False [] s of
        Inl e \<Rightarrow> Inl e
      | Inr (name, c, rest) \<Rightarrow>
          if c = CHR ''}'' then Inr (Field name None [], rest)
          else if c = CHR ''!'' then
            (case rest of
               [] \<Rightarrow> Inl (Exn ValueError ''end of string while looking for conversion specifier'')
             | conv # rest1 \<Rightarrow>
                 (case rest1 of
                    [] \<Rightarrow> with_spec name (Some conv) []
                  | d # rest2 \<Rightarrow>
                      if d = CHR ''}'' then Inr (Field name (Some conv) [], rest2)
                      else if d \<noteq> CHR '':'' then
                        Inl (Exn ValueError ''expected ':' after conversion specifier'')
                      else with_spec name (Some conv) rest2))
          else with_spec name None rest)"

definition is_digit :: "char \<Rightarrow> bool" where
  "is_digit c = (48 \<le> (of_char c :: nat) \<and> (of_char c :: nat) \<le> 57)"

definition nat_of_digits :: "string \<Rightarrow> nat" where
  "nat_of_digits s = foldl (\<lambda>n c. 10 * n + (of_char c - of_char CHR ''0'')) 0 s"

definition render_field ::
  "(string \<Rightarrow> field \<Rightarrow> exn + string) \<Rightarrow> (string \<times> string) list \<Rightarrow> field \<Rightarrow> exn + string" where
  "render_field fmt kwargs fld =
     (let first = takeWhile (\<lambda>c. c \<noteq> CHR ''.'' \<and> c \<noteq> CHR ''['') (field_name fld) in
      if list_all is_digit first then
        Inl (Exn IndexError (''Replacement index '' @ py_str_nat (nat_of_digits first)
               @ '' out of range for positional args tuple''))
      else
        (case map_of kwargs first of
           None \<Rightarrow> Inl (Exn KeyError (py_repr_str first))
         | Some v \<Rightarrow>
             if field_name fld = first \<and> conversion fld = None \<and> format_spec fld = []
             then Inr v else fmt v fld))"

function format_kw ::
  "(string \<Rightarrow> field \<Rightarrow> exn + string) \<Rightarrow> (string \<times> string) list \<Rightarrow> string \<Rightarrow> string \<Rightarrow> exn + string" where
  "format_kw fmt kwargs out [] = Inr (rev out)"
| "format_kw fmt kwargs out (c # cs) =
     (if c = CHR ''}'' then
        (case cs of
           [] \<Rightarrow> Inl (Exn ValueError ''Single '}' encountered in format string'')
         | d # ds \<Rightarrow>
             if d = CHR ''}'' then format_kw fmt kwargs (c # out) ds
             else Inl (Exn ValueError ''Single '}' encountered in format string''))
      else if c = CHR ''{'' then
        (case cs of
           [] \<Rightarrow> Inl (Exn ValueError ''Single '{' encountered in format string'')
         | d # ds \<Rightarrow>
             if d = CHR ''{'' then format_kw fmt kwargs (c # out) ds
             else
               (case parse_field cs of
                  Inl e \<Rightarrow> Inl e
                | Inr (fld, rest) \<Rightarrow>
                    (case render_field fmt kwargs fld of
                       Inl e \<Rightarrow> Inl e
                     | Inr v \<Rightarrow> format_kw fmt kwargs (rev v @ out) rest)))
      else format_kw fmt kwargs (c # out) cs)"
  by pat_completeness auto
termination
proof -
  have name: "length rest < length s" if "scan_name inb acc s = Inr (name, c, rest)"
    for inb acc s name c rest
    using that by (induction inb acc s rule: scan_name.induct) (auto split: if_splits)
  have spec: "length rest < length s" if "scan_spec n acc s = Inr (spec, rest)"
    for n acc s spec rest
    using that by (induction n acc s rule: scan_spec.induct) (auto split: if_splits)
  have field: "length rest < length s" if "parse_field s = Inr (fld, rest)" for s fld rest
    using that
    by (auto simp: parse_field_def with_spec_def
             split: sum.splits if_splits list.splits prod.splits dest!: name spec)
  show ?thesis
    by (relation "measure (\<lambda>(fmt, kwargs, out, s). length s)") (auto dest: field)
qed

definition str_format ::
  "(string \<Rightarrow> field \<Rightarrow> exn + string) \<Rightarrow> string \<Rightarrow> (string \<times> string) list \<Rightarrow> exn + string" where
  "str_format fmt template kwargs = format_kw fmt kwargs [] template"

section \<open>Operations of Python on decoded values\<close>

definition quoted :: "string \<Rightarrow> string" where
  "quoted s = CHR 0x27 # s @ [CHR 0x27]"

fun py_type_name :: "json \<Rightarrow> string" where
  "py_type_name JNull = ''NoneType''"
| "py_type_name (JBool b) = ''bool''"
| "py_type_name (JInt i) = ''int''"
| "py_type_name (JStr s) = ''str''"
| "py_type_name (JArr xs) = ''list''"
| "py_type_name (JObj d) = ''dict''"

text \<open>Truth value of an object, as \<^verbatim>\<open>bool(x)\<close>, \<^verbatim>\<open>x or y\<close> and \<^verbatim>\<open>if x\<close> take it.\<close>

fun py_truthy :: "json \<Rightarrow> bool" where
  "py_truthy JNull = False"
| "py_truthy (JBool b) = b"
| "py_truthy (JInt i) = (i \<noteq> 0)"
| "py_truthy (JStr s) = (s \<noteq> [])"
| "py_truthy (JArr xs) = (xs \<noteq> [])"
| "py_truthy (JObj d) = (d \<noteq> [])"

text \<open>\<^verbatim>\<open>d.get(key)\<close> on a dict: the value, or \<^verbatim>\<open>None\<close>.\<close>

definition dict_get :: "pydict \<Rightarrow> string \<Rightarrow> json" where
  "dict_get d k = (case map_of d k of None \<Rightarrow> JNull | Some v \<Rightarrow> v)"

text \<open>
  \<^verbatim>\<open>data.get(key, default)\<close> on an arbitrary object: only a dict has the method, any
  other decoded value raises \<^verbatim>\<open>AttributeError\<close>.
\<close>

fun py_get :: "json \<Rightarrow> string \<Rightarrow> json \<Rightarrow> exn + json" where
  "py_get (JObj d) k dflt = Inr (case map_of d k of None \<Rightarrow> dflt | Some v \<Rightarrow> v)"
| "py_get v k dflt =
     Inl (Exn AttributeError (quoted (py_type_name v) @ '' object has no attribute '' @ quoted ''get''))"

text \<open>
  \<^verbatim>\<open>int(x)\<close>. The conversion of a \<^verbatim>\<open>str\<close> is Python's own parser of integer literals,
  the parameter \<open>int_of_str\<close>: its result, or \<open>None\<close> where it raises \<^verbatim>\<open>ValueError\<close>.
\<close>

fun py_int :: "(string \<Rightarrow> int option) \<Rightarrow> json \<Rightarrow> exn + int" where
  "py_int int_of_str (JInt i) = Inr i"
| "py_int int_of_str (JBool b) = Inr (if b then 1 else 0)"
| "py_int int_of_str (JStr s) =
     (case int_of_str s of
        Some i \<Rightarrow> Inr i
      | None \<Rightarrow> Inl (Exn ValueError (''invalid literal for int() with base 10: '' @ py_repr_str s)))"
| "py_int int_of_str v =
     Inl (Exn TypeError
       (''int() argument must be a string, a bytes-like object or a real number, not ''
          @ quoted (py_type_name v)))"

definition try_bind :: "exn + 'a \<Rightarrow> ('a \<Rightarrow> exn + 'b) \<Rightarrow> exn + 'b" where
  "try_bind r f = (case r of Inl e \<Rightarrow> Inl e | Inr x \<Rightarrow> f x)"

definition py_dict_get :: "json \<Rightarrow> string \<Rightarrow> json" where
  "py_dict_get v k = (case v of JObj d \<Rightarrow> dict_get d k | _ \<Rightarrow> JNull)"

section \<open>Transcript, model responses and the environment\<close>

text \<open>
  One requested invocation of a model response (\<^verbatim>\<open>tool_call["id"]\<close>,
  \<^verbatim>\<open>tool_call["function"]["name"]\<close>, \<^verbatim>\<open>tool_call["function"]["arguments"]\<close>), the
  messages of the transcript, and the message of a completion choice.
\<close>

record tool_call =
  tc_id :: string
  tc_name :: string
  tc_arguments :: string

datatype message =
    System string
  | User string
  | Assistant "string option" "tool_call list"
  | Tool string string string

record llm_message =
  content :: "string option"
  tool_calls :: "tool_call list option"

text \<open>
  The backend is reached through \<^verbatim>\<open>requests\<close>. A request is the endpoint with the
  Python values the source puts into the URL or the JSON payload; a response carries its
  status code, the text of the \<^verbatim>\<open>HTTPError\<close> that \<^verbatim>\<open>raise_for_status()\<close> raises for
  it, and the outcome of \<^verbatim>\<open>response.json()\<close>.
\<close>

datatype http_request =
    GetAvailability json
  | PostOrder json json json
  | GetHistory json
  | GetRefillAlerts json

record http_response =
  status_code :: int
  http_error :: string
  json_body :: "exn + json"

text \<open>
  The span object yielded by \<^verbatim>\<open>create_trace\<close>: whether its \<^verbatim>\<open>update\<close> raises, and its
  \<^verbatim>\<open>trace_id\<close> attribute.
\<close>

record trace_handle =
  update_raises :: bool
  trace_id :: "string option"

text \<open>
  Everything outside the repository that a run depends on: the configuration
  (\<^verbatim>\<open>OPENAI_API_KEY\<close>, \<^verbatim>\<open>LANGFUSE_HOST\<close>), the reasoning model (the \<open>i\<close>-th call of a
  run on a transcript returns the messages of the completion's choices, or raises), the
  library functions \<^verbatim>\<open>json.loads\<close> (the decoded value, or the exception it raises:
  \<^verbatim>\<open>JSONDecodeError\<close> for a text that is not a JSON document, and others, such as
  \<^verbatim>\<open>RecursionError\<close> for a document nested too deeply), \<^verbatim>\<open>json.dumps\<close> and \<^verbatim>\<open>int\<close> on
  strings, the backend, the tracing span (\<open>None\<close> when Langfuse is not configured), and
  the formatting of a found value by \<^verbatim>\<open>str.format\<close>.
\<close>

record env =
  openai_api_key :: "string option"
  langfuse_host :: string
  llm :: "nat \<Rightarrow> message list \<Rightarrow> exn + llm_message list"
  json_loads :: "string \<Rightarrow> exn + json"
  json_dumps :: "json \<Rightarrow> string"
  int_of_str :: "string \<Rightarrow> int option"
  http :: "http_request \<Rightarrow> exn + http_response"
  tracer :: "trace_handle option"
  fmt_value :: "string \<Rightarrow> field \<Rightarrow> exn + string"

section \<open>The capability functions (\<^verbatim>\<open>agent/tools.py\<close>)\<close>

text \<open>
  \<^verbatim>\<open>response.raise_for_status()\<close> raises \<^verbatim>\<open>HTTPError\<close>, a \<^verbatim>\<open>RequestException\<close>, for
  the status codes from 400 to 599.
\<close>

definition raise_for_status :: "http_response \<Rightarrow> exn + unit" where
  "raise_for_status response =
     (if 400 \<le> status_code response \<and> status_code response < 600
      then Inl (Exn RequestException (http_error response)) else Inr ())"

definition availability_result :: "bool \<Rightarrow> int \<Rightarrow> bool \<Rightarrow> json \<Rightarrow> json" where
  "availability_result a q p e =
     JObj [(''available'', JBool a), (''stock_quantity'', JInt q),
           (''prescription_required'', JBool p), (''error'', e)]"

definition check_medicine_availability :: "env \<Rightarrow> json \<Rightarrow> exn + json" where
  "check_medicine_availability env medicine_name =
     (case
        try_bind (http env (GetAvailability medicine_name)) (\<lambda>response.
          if status_code response = 404
          then Inr (availability_result False 0 False (JStr ''Medicine not found''))
          else
            try_bind (raise_for_status response) (\<lambda>_.
            try_bind (json_body response) (\<lambda>data.
            try_bind (py_get data ''available'' (JBool False)) (\<lambda>a.
            try_bind (py_get data ''stock_quantity'' (JInt 0)) (\<lambda>s.
            try_bind (py_int (int_of_str env) (if py_truthy s then s else JInt 0)) (\<lambda>q.
            try_bind (py_get data ''prescription_required'' (JBool False)) (\<lambda>p.
            Inr (availability_result (py_truthy a) q (py_truthy p) JNull))))))))
      of
        Inr result \<Rightarrow> Inr result
      | Inl exc \<Rightarrow>
          if is_RequestException exc
          then Inr (availability_result False 0 False (JStr (''Request error: '' @ exc_str exc)))
          else if is_ValueError exc
          then Inr (availability_result False 0 False (JStr ''Invalid JSON response from backend''))
          else Inl exc)"

definition order_result :: "json \<Rightarrow> json \<Rightarrow> json \<Rightarrow> json \<Rightarrow> json" where
  "order_result st oid reason e =
     JObj [(''status'', st), (''order_id'', oid), (''reason'', reason), (''error'', e)]"

definition create_order :: "env \<Rightarrow> json \<Rightarrow> json \<Rightarrow> json \<Rightarrow> exn + json" where
  "create_order env customer_id medicine_name quantity =
     (case
        try_bind (http env (PostOrder customer_id medicine_name quantity)) (\<lambda>response.
          try_bind (raise_for_status response) (\<lambda>_.
          try_bind (json_body response) (\<lambda>data.
          try_bind (py_get data ''status'' (JStr ''rejected'')) (\<lambda>st.
          try_bind (py_get data ''order_id'' JNull) (\<lambda>oid.
          try_bind (py_get data ''reason'' JNull) (\<lambda>reason.
          Inr (order_result st oid reason JNull)))))))
      of
        Inr result \<Rightarrow> Inr result
      | Inl exc \<Rightarrow>
          if is_RequestException exc
          then Inr (order_result (JStr ''rejected'') JNull (JStr ''Failed to contact backend service'')
                      (JStr (''Request error: '' @ exc_str exc)))
          else if is_ValueError exc
          then Inr (order_result (JStr ''rejected'') JNull (JStr ''Invalid response from backend service'')
                      (JStr ''Invalid JSON response from backend''))
          else Inl exc)"

text \<open>
  \<^verbatim>\<open>get_customer_history\<close> and \<^verbatim>\<open>get_refill_alerts\<close> differ in the endpoint and in
  the key of the list they return.
\<close>

definition list_lookup :: "env \<Rightarrow> http_request \<Rightarrow> string \<Rightarrow> exn + json" where
  "list_lookup env request key =
     (case
        try_bind (http env request) (\<lambda>response.
          if status_code response = 404
          then Inr (JObj [(key, JArr []), (''error'', JStr ''Customer not found'')])
          else
            try_bind (raise_for_status response) (\<lambda>_.
            try_bind (json_body response) (\<lambda>data.
            Inr (JObj [(key, JArr (case data of JArr items \<Rightarrow> items | _ \<Rightarrow> [])),
                       (''error'', JNull)]))))
      of
        Inr result \<Rightarrow> Inr result
      | Inl exc \<Rightarrow>
          if is_RequestException exc
          then Inr (JObj [(key, JArr []), (''error'', JStr (''Request error: '' @ exc_str exc))])
          else if is_ValueError exc
          then Inr (JObj [(key, JArr []), (''error'', JStr ''Invalid JSON response from backend'')])
          else Inl exc)"

definition get_customer_history :: "env \<Rightarrow> json \<Rightarrow> exn + json" where
  "get_customer_history env customer_id = list_lookup env (GetHistory customer_id) ''history''"

definition get_refill_alerts :: "env \<Rightarrow> json \<Rightarrow> exn + json" where
  "get_refill_alerts env customer_id = list_lookup env (GetRefillAlerts customer_id) ''alerts''"

section \<open>The capability registry and the call \<^verbatim>\<open>tool_fn(**args)\<close>\<close>

text \<open>
  Binding the decoded arguments to the parameters of a function: the argument after
  \<^verbatim>\<open>**\<close> must be a dict, a key that is not a parameter is an unexpected keyword, and
  every parameter (all are required) must be among the keys. Each failure is a
  \<^verbatim>\<open>TypeError\<close>.
\<close>

fun name_list :: "string list \<Rightarrow> string" where
  "name_list [] = []"
| "name_list [a] = quoted a"
| "name_list [a, b] = quoted a @ '' and '' @ quoted b"
| "name_list (a # rest) =
     concat (map (\<lambda>n. quoted n @ '', '') (a # butlast rest)) @ ''and '' @ quoted (last rest)"

definition bind_kwargs :: "string \<Rightarrow> string list \<Rightarrow> json \<Rightarrow> exn + (string \<Rightarrow> json)" where
  "bind_kwargs fname params args =
     (case args of
        JObj kvs \<Rightarrow>
          (case filter (\<lambda>k. k \<notin> set params) (map fst kvs) of
             k # _ \<Rightarrow>
               Inl (Exn TypeError (fname @ ''() got an unexpected keyword argument '' @ quoted k))
           | [] \<Rightarrow>
               (case filter (\<lambda>p. p \<notin> set (map fst kvs)) params of
                  [] \<Rightarrow> Inr (dict_get kvs)
                | missing \<Rightarrow>
                    Inl (Exn TypeError
                      (fname @ ''() missing '' @ py_str_nat (length missing)
                         @ '' required positional argument''
                         @ (if length missing = 1 then [] else ''s'') @ '': ''
                         @ name_list missing))))
      | _ \<Rightarrow>
          Inl (Exn TypeError
            (''tools.'' @ fname @ ''() argument after ** must be a mapping, not ''
               @ py_type_name args)))"

type_synonym handler = "json \<Rightarrow> exn + json"

definition keyword_call ::
  "string \<Rightarrow> string list \<Rightarrow> ((string \<Rightarrow> json) \<Rightarrow> exn + json) \<Rightarrow> handler" where
  "keyword_call fname params body = (\<lambda>args. try_bind (bind_kwargs fname params args) body)"

definition TOOL_DISPATCH :: "env \<Rightarrow> string \<Rightarrow> handler option" where
  "TOOL_DISPATCH env = map_of
     [(''check_medicine_availability'',
         keyword_call ''check_medicine_availability'' [''medicine_name'']
           (\<lambda>kw. check_medicine_availability env (kw ''medicine_name''))),
      (''create_order'',
         keyword_call ''create_order'' [''customer_id'', ''medicine_name'', ''quantity'']
           (\<lambda>kw. create_order env (kw ''customer_id'') (kw ''medicine_name'') (kw ''quantity''))),
      (''get_customer_history'',
         keyword_call ''get_customer_history'' [''customer_id'']
           (\<lambda>kw. get_customer_history env (kw ''customer_id''))),
      (''get_refill_alerts'',
         keyword_call ''get_refill_alerts'' [''customer_id'']
           (\<lambda>kw. get_refill_alerts env (kw ''customer_id'')))]"

definition registered :: "string list" where
  "registered =
     [''check_medicine_availability'', ''create_order'', ''get_customer_history'',
      ''get_refill_alerts'']"

section \<open>Executing one requested invocation (\<^verbatim>\<open>run_agent\<close>, lines 237 to 260)\<close>

text \<open>
  Lines 238 to 242: the handler of line 241 catches \<^verbatim>\<open>json.JSONDecodeError\<close> only, any
  other exception of \<^verbatim>\<open>json.loads\<close> leaves the loop body.
\<close>

definition raw_arguments :: "tool_call \<Rightarrow> string" where
  "raw_arguments tool_call =
     (if tc_arguments tool_call = [] then ''{}'' else tc_arguments tool_call)"

definition decode_arguments :: "env \<Rightarrow> tool_call \<Rightarrow> exn + json" where
  "decode_arguments env tool_call =
     (case json_loads env (raw_arguments tool_call) of
        Inr args \<Rightarrow> Inr args
      | Inl exc \<Rightarrow> if is_JSONDecodeError exc then Inr (JObj []) else Inl exc)"

definition invoke :: "(string \<Rightarrow> handler option) \<Rightarrow> string \<Rightarrow> json \<Rightarrow> json" where
  "invoke dispatch func_name args =
     (case dispatch func_name of
        None \<Rightarrow> JObj [(''error'', JStr (''Unknown tool: '' @ func_name))]
      | Some tool_fn \<Rightarrow>
          (case tool_fn args of
             Inr tool_result \<Rightarrow> tool_result
           | Inl exc \<Rightarrow>
               if is_TypeError exc
               then JObj [(''error'', JStr (''Invalid arguments for tool '' @ func_name))]
               else JObj [(''error'',
                      JStr (''Tool '' @ func_name @ '' raised an exception: '' @ exc_str exc))]))"

definition execute :: "env \<Rightarrow> tool_call \<Rightarrow> exn + json" where
  "execute env tool_call =
     (case decode_arguments env tool_call of
        Inl exc \<Rightarrow> Inl exc
      | Inr args \<Rightarrow> Inr (invoke (TOOL_DISPATCH env) (tc_name tool_call) args))"

text \<open>
  The condition of lines 267 to 272, which decides whether the synthetic
  \<^verbatim>\<open>warehouse_webhook\<close> span is logged. The membership test in a set hashes the
  status, which raises \<^verbatim>\<open>TypeError\<close> for a list or a dict.
\<close>

definition webhook_due :: "string \<Rightarrow> json \<Rightarrow> exn + bool" where
  "webhook_due func_name tool_result =
     (if func_name \<noteq> ''create_order'' then Inr False
      else
        (case tool_result of
           JObj d \<Rightarrow>
             if dict_get d ''order_id'' = JNull then Inr False
             else
               (case dict_get d ''status'' of
                  JArr xs \<Rightarrow> Inl (Exn TypeError (''unhashable type: '' @ quoted ''list''))
                | JObj kvs \<Rightarrow> Inl (Exn TypeError (''unhashable type: '' @ quoted ''dict''))
                | status \<Rightarrow> Inr (status = JStr ''approved'' \<or> status = JStr ''pending''))
         | _ \<Rightarrow> Inr False))"

section \<open>The orchestration loop (\<^verbatim>\<open>run_agent\<close>, lines 210 to 324)\<close>

text \<open>
  The state of a run: the transcript \<^verbatim>\<open>messages\<close>, and a record of what the run did,
  which the source reports to the tracing backend: the transcript passed to each model
  call, and the name, arguments and result of each \<^verbatim>\<open>log_tool_call\<close>.
\<close>

record run_state =
  messages :: "message list"
  model_inputs :: "message list list"
  tool_spans :: "(string \<times> json \<times> json) list"

definition get_client_error :: exn where
  "get_client_error = Exn RuntimeError
     (''OPENAI_API_KEY is not set. Please configure it in the .env file '' @
      ''before running the agent.'')"

definition call_llm :: "env \<Rightarrow> nat \<Rightarrow> message list \<Rightarrow> exn + llm_message list" where
  "call_llm env i msgs =
     (case openai_api_key env of
        None \<Rightarrow> Inl get_client_error
      | Some key \<Rightarrow> if key = [] then Inl get_client_error else llm env i msgs)"

text \<open>The inner loop over the requested invocations, lines 236 to 287.\<close>

fun run_tool_calls :: "env \<Rightarrow> tool_call list \<Rightarrow> run_state \<Rightarrow> exn option \<times> run_state" where
  "run_tool_calls env [] st = (None, st)"
| "run_tool_calls env (tool_call # rest) st =
     (let func_name = tc_name tool_call in
      case decode_arguments env tool_call of
        Inl exc \<Rightarrow> (Some exc, st)
      | Inr args \<Rightarrow>
          (let tool_result = invoke (TOOL_DISPATCH env) func_name args;
               st1 = st\<lparr>tool_spans := tool_spans st @ [(func_name, args, tool_result)]\<rparr>
           in case webhook_due func_name tool_result of
                Inl exc \<Rightarrow> (Some exc, st1)
              | Inr due \<Rightarrow>
                  (let st2 =
                         (if due then
                            st1\<lparr>tool_spans := tool_spans st1 @
                              [(''warehouse_webhook'',
                                JObj [(''order_id'', py_dict_get tool_result ''order_id'')],
                                JObj [(''status'', py_dict_get tool_result ''status'')])]\<rparr>
                          else st1);
                       st3 = st2\<lparr>messages := messages st2 @
                              [Tool (tc_id tool_call) func_name (json_dumps env tool_result)]\<rparr>
                   in run_tool_calls env rest st3)))"

text \<open>
  The final-answer parsing of lines 293 to 302. The handler of line 300 catches
  \<^verbatim>\<open>json.JSONDecodeError\<close> only.
\<close>

definition content_text :: "llm_message \<Rightarrow> string" where
  "content_text choice = (case content choice of None \<Rightarrow> [] | Some text \<Rightarrow> text)"

definition wrapped :: "string \<Rightarrow> pydict" where
  "wrapped text = [(''message'', JStr text), (''status'', JStr ''unknown'')]"

definition final_answer :: "env \<Rightarrow> llm_message \<Rightarrow> exn + pydict" where
  "final_answer env choice =
     (case json_loads env (content_text choice) of
        Inr (JObj parsed) \<Rightarrow> Inr parsed
      | Inr _ \<Rightarrow> Inr (wrapped (content_text choice))
      | Inl exc \<Rightarrow>
          if is_JSONDecodeError exc then Inr (wrapped (content_text choice)) else Inl exc)"

definition step_limit_answer :: pydict where
  "step_limit_answer =
     [(''message'', JStr ''The agent could not complete the request within the step limit.''),
      (''status'', JStr ''error'')]"

definition unexpected_error_answer :: "exn \<Rightarrow> pydict" where
  "unexpected_error_answer exc =
     [(''message'', JStr (''Unexpected error in agent: '' @ exc_str exc)),
      (''status'', JStr ''error'')]"

text \<open>
  One iteration of the loop of line 220: either the run goes on to the next iteration,
  or the body returns a result or raises.
\<close>

datatype round_outcome = Continue run_state | Stop "exn + pydict" run_state

definition requested :: "llm_message \<Rightarrow> tool_call list" where
  "requested choice = (case tool_calls choice of None \<Rightarrow> [] | Some tcs \<Rightarrow> tcs)"

definition one_round :: "env \<Rightarrow> run_state \<Rightarrow> round_outcome" where
  "one_round env st =
     (let st1 = st\<lparr>model_inputs := model_inputs st @ [messages st]\<rparr> in
      case call_llm env (length (model_inputs st)) (messages st) of
        Inl exc \<Rightarrow> Stop (Inl exc) st1
      | Inr choices \<Rightarrow>
          (case choices of
             [] \<Rightarrow> Stop (Inl (Exn IndexError ''list index out of range'')) st1
           | choice # _ \<Rightarrow>
               if requested choice \<noteq> [] then
                 (case run_tool_calls env (requested choice)
                         (st1\<lparr>messages := messages st1 @
                            [Assistant (content choice) (requested choice)]\<rparr>) of
                    (Some exc, st2) \<Rightarrow> Stop (Inl exc) st2
                  | (None, st2) \<Rightarrow> Continue st2)
               else Stop (final_answer env choice) st1))"

fun agent_rounds :: "env \<Rightarrow> nat \<Rightarrow> run_state \<Rightarrow> (exn + pydict) \<times> run_state" where
  "agent_rounds env 0 st = (Inr step_limit_answer, st)"
| "agent_rounds env (Suc k) st =
     (case one_round env st of
        Stop outcome st' \<Rightarrow> (outcome, st')
      | Continue st' \<Rightarrow> agent_rounds env k st')"

text \<open>
  \<^verbatim>\<open>end_trace\<close> (observability.py): the run URL it returns. The trace id stays unset
  when there is no span or when updating the span raises.
\<close>

definition rstrip_slash :: "string \<Rightarrow> string" where
  "rstrip_slash s = rev (dropWhile (\<lambda>c. c = CHR ''/'') (rev s))"

definition end_trace :: "env \<Rightarrow> string option" where
  "end_trace env =
     (let tid =
            (case tracer env of
               None \<Rightarrow> None
             | Some trace \<Rightarrow> if update_raises trace then None else trace_id trace);
          base_url = rstrip_slash
            (if langfuse_host env = [] then ''https://cloud.langfuse.com'' else langfuse_host env)
      in case tid of
           None \<Rightarrow> None
         | Some t \<Rightarrow> if t = [] then None else Some (base_url @ ''/trace/'' @ t))"

text \<open>
  \<^verbatim>\<open>run_agent\<close> from line 210 on, entered with the system prompt: the transcript is
  seeded, the loop runs \<^verbatim>\<open>range(max_steps)\<close> times inside the \<^verbatim>\<open>try\<close>, and the
  handler of line 316 turns an exception into an answer.
\<close>

definition initial_state :: "string \<Rightarrow> string \<Rightarrow> run_state" where
  "initial_state system_prompt user_input =
     \<lparr>messages = [System system_prompt, User user_input], model_inputs = [], tool_spans = []\<rparr>"

definition run_loop :: "env \<Rightarrow> string \<Rightarrow> string \<Rightarrow> int \<Rightarrow> (exn + pydict) \<times> run_state" where
  "run_loop env system_prompt user_input max_steps =
     agent_rounds env (nat max_steps) (initial_state system_prompt user_input)"

text \<open>The result of the body: what it returns, or what the handler of line 316 makes of
  the exception it raises.\<close>

definition caught :: "exn + pydict \<Rightarrow> pydict" where
  "caught outcome =
     (case outcome of Inr result \<Rightarrow> result | Inl exc \<Rightarrow> unexpected_error_answer exc)"

definition run_agent_body ::
  "env \<Rightarrow> string \<Rightarrow> string \<Rightarrow> int \<Rightarrow> (pydict \<times> string option) \<times> run_state" where
  "run_agent_body env system_prompt user_input max_steps =
     (case run_loop env system_prompt user_input max_steps of
        (outcome, st) \<Rightarrow> ((caught outcome, end_trace env), st))"

text \<open>
  \<^verbatim>\<open>run_agent(user_input, customer_id, max_steps)\<close>. Line 208 formats the system prompt
  before the \<^verbatim>\<open>try\<close> is entered, so an exception of \<^verbatim>\<open>str.format\<close> leaves the function.
\<close>

definition run_agent :: "env \<Rightarrow> string \<Rightarrow> int \<Rightarrow> int \<Rightarrow> exn + (pydict \<times> string option)" where
  "run_agent env user_input customer_id max_steps =
     (case str_format (fmt_value env) SYSTEM_PROMPT_TEMPLATE
             [(''customer_id'', py_str_int customer_id)] of
        Inl exc \<Rightarrow> Inl exc
      | Inr system_prompt \<Rightarrow>
          Inr (fst (run_agent_body env system_prompt user_input max_steps)))"

section \<open>A reference environment\<close>

text \<open>
  Concrete instances of the library parameters, for running the model on examples: a
  decoder and an encoder for the ASCII fragment of JSON with integer numbers and the
  simple escapes, which follow \<^verbatim>\<open>json.loads\<close> and \<^verbatim>\<open>json.dumps\<close> on that fragment (a
  document outside it is reported as undecodable), and the parser of plain decimal
  literals for \<^verbatim>\<open>int\<close>. The decoder raises \<^verbatim>\<open>RecursionError\<close> on a text that opens more
  arrays at its start than the recursion limit of the interpreter allows, and
  \<^verbatim>\<open>JSONDecodeError\<close>, whose text agent.py never reads, on any other text it does not
  decode.
\<close>

definition is_ws :: "char \<Rightarrow> bool" where
  "is_ws c = (c = CHR '' '' \<or> c = CHR 0x09 \<or> c = CHR 0x0A \<or> c = CHR 0x0D)"

definition skip_ws :: "string \<Rightarrow> string" where
  "skip_ws s = dropWhile is_ws s"

definition unescape :: "char \<Rightarrow> char option" where
  "unescape c =
     (if c = CHR 0x22 \<or> c = CHR 0x5C \<or> c = CHR ''/'' then Some c
      else if c = CHR ''b'' then Some (CHR 0x08)
      else if c = CHR ''f'' then Some (CHR 0x0C)
      else if c = CHR ''n'' then Some (CHR 0x0A)
      else if c = CHR ''r'' then Some (CHR 0x0D)
      else if c = CHR ''t'' then Some (CHR 0x09)
      else None)"

fun scan_string :: "string \<Rightarrow> string \<Rightarrow> (string \<times> string) option" where
  "scan_string acc [] = None"
| "scan_string acc [c] = (if c = CHR 0x22 then Some (rev acc, []) else None)"
| "scan_string acc (c # d # cs) =
     (if c = CHR 0x22 then Some (rev acc, d # cs)
      else if c = CHR 0x5C then
        (case unescape d of None \<Rightarrow> None | Some e \<Rightarrow> scan_string (e # acc) cs)
      else if (of_char c :: nat) < 32 then None
      else scan_string (c # acc) (d # cs))"

definition scan_number :: "string \<Rightarrow> (json \<times> string) option" where
  "scan_number s =
     (let neg = (s \<noteq> [] \<and> hd s = CHR ''-'');
          body = (if neg then tl s else s);
          ds = takeWhile is_digit body;
          rest = dropWhile is_digit body
      in if ds = [] \<or> (hd ds = CHR ''0'' \<and> length ds > 1) then None
         else if rest \<noteq> [] \<and> (hd rest = CHR ''.'' \<or> hd rest = CHR ''e'' \<or> hd rest = CHR ''E'')
         then None
         else Some (JInt (if neg then - int (nat_of_digits ds) else int (nat_of_digits ds)), rest))"

definition dict_set :: "pydict \<Rightarrow> string \<Rightarrow> json \<Rightarrow> pydict" where
  "dict_set d k v =
     (if k \<in> set (map fst d) then map (\<lambda>(k', v'). if k' = k then (k', v) else (k', v')) d
      else d @ [(k, v)])"

fun parse_value :: "nat \<Rightarrow> string \<Rightarrow> (json \<times> string) option"
  and parse_elements :: "nat \<Rightarrow> json list \<Rightarrow> string \<Rightarrow> (json \<times> string) option"
  and parse_members :: "nat \<Rightarrow> pydict \<Rightarrow> string \<Rightarrow> (json \<times> string) option" where
  "parse_value 0 s = None"
| "parse_value (Suc n) [] = None"
| "parse_value (Suc n) (c # cs) =
     (if c = CHR 0x22 then
        (case scan_string [] cs of None \<Rightarrow> None | Some (text, rest) \<Rightarrow> Some (JStr text, rest))
      else if c = CHR ''{'' then
        (case skip_ws cs of
           [] \<Rightarrow> None
         | d # rest \<Rightarrow> if d = CHR ''}'' then Some (JObj [], rest) else parse_members n [] (d # rest))
      else if c = CHR ''['' then
        (case skip_ws cs of
           [] \<Rightarrow> None
         | d # rest \<Rightarrow> if d = CHR '']'' then Some (JArr [], rest) else parse_elements n [] (d # rest))
      else if prefix ''null'' (c # cs) then Some (JNull, drop 4 (c # cs))
      else if prefix ''true'' (c # cs) then Some (JBool True, drop 4 (c # cs))
      else if prefix ''false'' (c # cs) then Some (JBool False, drop 5 (c # cs))
      else scan_number (c # cs))"
| "parse_elements 0 acc s = None"
| "parse_elements (Suc n) acc s =
     (case parse_value n s of
        None \<Rightarrow> None
      | Some (v, rest) \<Rightarrow>
          (case skip_ws rest of
             [] \<Rightarrow> None
           | d # rest' \<Rightarrow>
               if d = CHR '','' then parse_elements n (v # acc) (skip_ws rest')
               else if d = CHR '']'' then Some (JArr (rev (v # acc)), rest')
               else None))"
| "parse_members 0 acc s = None"
| "parse_members (Suc n) acc [] = None"
| "parse_members (Suc n) acc (c # cs) =
     (if c \<noteq> CHR 0x22 then None
      else
        (case scan_string [] cs of
           None \<Rightarrow> None
         | Some (k, rest) \<Rightarrow>
             (case skip_ws rest of
                [] \<Rightarrow> None
              | d # rest1 \<Rightarrow>
                  if d \<noteq> CHR '':'' then None
                  else
                    (case parse_value n (skip_ws rest1) of
                       None \<Rightarrow> None
                     | Some (v, rest2) \<Rightarrow>
                         (case skip_ws rest2 of
                            [] \<Rightarrow> None
                          | e # rest3 \<Rightarrow>
                              if e = CHR '','' then parse_members n (dict_set acc k v) (skip_ws rest3)
                              else if e = CHR ''}'' then Some (JObj (dict_set acc k v), rest3)
                              else None)))))"

definition json_decode :: "string \<Rightarrow> json option" where
  "json_decode s =
     (case parse_value (Suc (length s)) (skip_ws s) of
        None \<Rightarrow> None
      | Some (v, rest) \<Rightarrow> if skip_ws rest = [] then Some v else None)"

definition recursion_limit :: nat where
  "recursion_limit = 1000"

definition example_loads :: "string \<Rightarrow> exn + json" where
  "example_loads s =
     (if recursion_limit < length (takeWhile (\<lambda>c. c = CHR ''['') s)
      then Inl (Exn RecursionError
        (''maximum recursion depth exceeded while decoding a JSON array '' @
         ''from a unicode string''))
      else
        (case json_decode s of
           Some v \<Rightarrow> Inr v
         | None \<Rightarrow> Inl (Exn JSONDecodeError ''Expecting value'')))"

definition escape_char :: "char \<Rightarrow> string" where
  "escape_char c =
     (if c = CHR 0x22 then [CHR 0x5C, CHR 0x22]
      else if c = CHR 0x5C then [CHR 0x5C, CHR 0x5C]
      else if c = CHR 0x0A then [CHR 0x5C, CHR ''n'']
      else if c = CHR 0x0D then [CHR 0x5C, CHR ''r'']
      else if c = CHR 0x09 then [CHR 0x5C, CHR ''t'']
      else if c = CHR 0x08 then [CHR 0x5C, CHR ''b'']
      else if c = CHR 0x0C then [CHR 0x5C, CHR ''f'']
      else if (of_char c :: nat) < 32 then
        [CHR 0x5C, CHR ''u'', CHR ''0'', CHR ''0'',
         hex_char (of_char c div 16), hex_char (of_char c mod 16)]
      else [c])"

definition encode_string :: "string \<Rightarrow> string" where
  "encode_string s = CHR 0x22 # concat (map escape_char s) @ [CHR 0x22]"

fun join :: "string \<Rightarrow> string list \<Rightarrow> string" where
  "join sep [] = []"
| "join sep [x] = x"
| "join sep (x # y # ys) = x @ sep @ join sep (y # ys)"

fun json_encode :: "json \<Rightarrow> string"
  and encode_elements :: "json list \<Rightarrow> string list"
  and encode_members :: "(string \<times> json) list \<Rightarrow> string list" where
  "json_encode JNull = ''null''"
| "json_encode (JBool b) = (if b then ''true'' else ''false'')"
| "json_encode (JInt i) = py_str_int i"
| "json_encode (JStr s) = encode_string s"
| "json_encode (JArr xs) = ''['' @ join '', '' (encode_elements xs) @ '']''"
| "json_encode (JObj kvs) = ''{'' @ join '', '' (encode_members kvs) @ ''}''"
| "encode_elements [] = []"
| "encode_elements (x # xs) = json_encode x # encode_elements xs"
| "encode_members [] = []"
| "encode_members ((k, v) # kvs) = (encode_string k @ '': '' @ json_encode v) # encode_members kvs"

definition strip_ws :: "string \<Rightarrow> string" where
  "strip_ws s = rev (dropWhile is_ws (rev (dropWhile is_ws s)))"

definition decimal_int :: "string \<Rightarrow> int option" where
  "decimal_int s =
     (let t = strip_ws s;
          neg = (t \<noteq> [] \<and> hd t = CHR ''-'');
          ds = (if t \<noteq> [] \<and> (hd t = CHR ''-'' \<or> hd t = CHR ''+'') then tl t else t)
      in if ds = [] \<or> \<not> list_all is_digit ds then None
         else Some (if neg then - int (nat_of_digits ds) else int (nat_of_digits ds)))"

text \<open>
  The environment of the examples: an API key is configured, tracing is off, and the
  reasoning model and the backend are given by the example.
\<close>

definition example_env ::
  "(nat \<Rightarrow> message list \<Rightarrow> exn + llm_message list) \<Rightarrow> (http_request \<Rightarrow> exn + http_response) \<Rightarrow> env" where
  "example_env model backend =
     \<lparr>openai_api_key = Some ''sk-example'',
      langfuse_host = ''https://cloud.langfuse.com'',
      llm = model,
      json_loads = example_loads,
      json_dumps = json_encode,
      int_of_str = decimal_int,
      http = backend,
      tracer = None,
      fmt_value = (\<lambda>v fld. Inr v)\<rparr>"

definition backend_down :: "http_request \<Rightarrow> exn + http_response" where
  "backend_down request = Inl (Exn RequestException ''Connection refused'')"

definition backend_replies :: "json \<Rightarrow> http_request \<Rightarrow> exn + http_response" where
  "backend_replies body request = Inr \<lparr>status_code = 200, http_error = [], json_body = Inr body\<rparr>"

text \<open>A model that answers with the given text and requests nothing.\<close>

definition model_says :: "string \<Rightarrow> nat \<Rightarrow> message list \<Rightarrow> exn + llm_message list" where
  "model_says text i msgs = Inr [\<lparr>content = Some text, tool_calls = None\<rparr>]"


text \<open>A model that requests the given invocations on its first call and then answers.\<close>

definition model_requests_then_says ::
  "tool_call list \<Rightarrow> string \<Rightarrow> nat \<Rightarrow> message list \<Rightarrow> exn + llm_message list" where
  "model_requests_then_says tcs text i msgs =
     (if i = 0 then Inr [\<lparr>content = None, tool_calls = Some tcs\<rparr>]
      else Inr [\<lparr>content = Some text, tool_calls = None\<rparr>])"

text \<open>The invocations, texts and backend answers of the examples.\<close>

definition ask_availability :: tool_call where
  "ask_availability = \<lparr>tc_id = ''call_1'', tc_name = ''check_medicine_availability'',
      tc_arguments = ''{\"medicine_name\": \"Paracetamol\"}''\<rparr>"

definition ask_price :: tool_call where
  "ask_price = \<lparr>tc_id = ''call_2'', tc_name = ''lookup_price'', tc_arguments = ''{bad''\<rparr>"

definition deep_nesting :: string where
  "deep_nesting = replicate 1100 (CHR ''['')"

definition backend_is_down :: string where
  "backend_is_down = ''{\"status\": \"rejected\", \"message\": \"The backend is unavailable.\"}''"



section \<open>Properties of a run\<close>

text \<open>A text without braces, which \<^verbatim>\<open>str.format\<close> copies.\<close>

definition plain :: "string \<Rightarrow> bool" where
  "plain s = list_all (\<lambda>c. c \<noteq> CHR ''{'' \<and> c \<noteq> CHR ''}'') s"

text \<open>
  The tool-result message that answers a requested invocation, and the round-trip
  property of a transcript: reading it from the start, each assistant message is followed
  by one tool-result message for each of its requested invocations, with the ids of the
  invocations in request order, before any other assistant message and before the end.
  \<open>pending_after\<close> gives the invocations still unanswered, or \<open>None\<close> when a tool-result
  message answers none of them.
\<close>

definition tool_message :: "env \<Rightarrow> tool_call \<Rightarrow> message" where
  "tool_message env tool_call =
     Tool (tc_id tool_call) (tc_name tool_call)
       (case execute env tool_call of Inr tool_result \<Rightarrow> json_dumps env tool_result | Inl exc \<Rightarrow> [])"

fun pending_after :: "tool_call list \<Rightarrow> message list \<Rightarrow> tool_call list option" where
  "pending_after pending [] = Some pending"
| "pending_after [] (Assistant c tcs # ms) = pending_after tcs ms"
| "pending_after [] (Tool i n c # ms) = None"
| "pending_after [] (m # ms) = pending_after [] ms"
| "pending_after (tc # pending) (Tool i n c # ms) =
     (if i = tc_id tc then pending_after pending ms else None)"
| "pending_after (tc # pending) (m # ms) = None"

definition round_trip :: "message list \<Rightarrow> bool" where
  "round_trip ms = (pending_after [] ms = Some [])"

text \<open>
  The invariant of the loop, for a seed: every transcript passed to the model so far
  has the round-trip property, and the seed, these transcripts and the current transcript
  form a chain of prefixes.
\<close>

definition snapshots_ok :: "message list \<Rightarrow> run_state \<Rightarrow> bool" where
  "snapshots_ok seed st =
     (list_all round_trip (model_inputs st)
      \<and> sorted_wrt prefix (seed # model_inputs st @ [messages st]))"

text \<open>
  The state of a round once the model call is recorded and the assistant message with
  the requested invocations is appended (lines 227 to 233).
\<close>

definition asked :: "run_state \<Rightarrow> string option \<Rightarrow> tool_call list \<Rightarrow> run_state" where
  "asked st c tcs =
     st\<lparr>model_inputs := model_inputs st @ [messages st],
        messages := messages st @ [Assistant c tcs]\<rparr>"




section \<open>Formatting the system prompt\<close>

lemma format_kw_plain:
  "plain lit \<Longrightarrow> format_kw fmt kw out (lit @ rest) = format_kw fmt kw (rev lit @ out) rest"
  by (induction lit arbitrary: out) (simp_all add: plain_def)

lemma plain_role: "plain prompt_role"
  by (simp add: plain_def prompt_role_def)

lemma plain_duties: "plain prompt_duties"
  by (simp add: plain_def prompt_duties_def)

text \<open>
  The template holds its example answers, from line 69 on, in single braces. After the
  field \<^verbatim>\<open>{customer_id}\<close> the next replacement field is therefore the first example,
  whose field name is the text up to its first colon; no keyword argument has that name.
\<close>

lemma format_system_prompt:
  "str_format fmt SYSTEM_PROMPT_TEMPLATE [(''customer_id'', v)]
     = Inl (Exn KeyError (quoted '' \"message\"''))"
  unfolding str_format_def SYSTEM_PROMPT_TEMPLATE_def
  apply (subst format_kw_plain [OF plain_role])
  apply (simp add: prompt_customer_def parse_field_def with_spec_def render_field_def is_digit_def
      format_kw_plain [OF plain_duties])
  apply (simp add: prompt_examples_def parse_field_def with_spec_def render_field_def is_digit_def
      py_repr_str_def repr_char_def quoted_def Let_def)
  done

section \<open>The public entry point\<close>

text \<open>
  C1. The claim is that \<^verbatim>\<open>run\<close> returns a Final Answer for every input and never
  raises. The code does otherwise: for every environment, user input, customer id and
  step budget, \<^verbatim>\<open>run_agent\<close> raises the \<^verbatim>\<open>KeyError\<close> of line 208, before the
  \<^verbatim>\<open>try\<close> of line 219 is entered.
\<close>

theorem run_agent_raises_KeyError:
  "run_agent env user_input customer_id max_steps = Inl (Exn KeyError (quoted '' \"message\"''))"
  by (simp add: run_agent_def format_system_prompt)

section \<open>The registry\<close>

lemma dispatch_unregistered:
  "TOOL_DISPATCH env name = None \<longleftrightarrow> name \<notin> set registered"
  by (simp add: TOOL_DISPATCH_def registered_def)









lemma webhook_not_due_unregistered:
  "name \<notin> set registered \<Longrightarrow> webhook_due name tool_result = Inr False"
  by (auto simp: webhook_due_def registered_def)

section \<open>The executor\<close>

text \<open>The reference decoder on the texts of the examples.\<close>

lemma loads_deep_nesting:
  "example_loads deep_nesting = Inl (Exn RecursionError
     (''maximum recursion depth exceeded while decoding a JSON array '' @ ''from a unicode string''))"
  by (simp add: example_loads_def deep_nesting_def recursion_limit_def takeWhile_replicate)


lemma decode_empty_object: "json_decode ''{}'' = Some (JObj [])"
  by (simp add: json_decode_def skip_ws_def is_ws_def)


lemma loads_empty_object: "example_loads ''{}'' = Inr (JObj [])"
  by (simp add: example_loads_def decode_empty_object recursion_limit_def)

lemma deep_nesting_not_empty: "deep_nesting \<noteq> []"
  by (simp add: deep_nesting_def)

text \<open>One iteration of the loop, by the outcome of the model call.\<close>

lemma one_round_unfold:
  "one_round env st =
     (case call_llm env (length (model_inputs st)) (messages st) of
        Inl exc \<Rightarrow> Stop (Inl exc) (st\<lparr>model_inputs := model_inputs st @ [messages st]\<rparr>)
      | Inr [] \<Rightarrow> Stop (Inl (Exn IndexError ''list index out of range''))
                   (st\<lparr>model_inputs := model_inputs st @ [messages st]\<rparr>)
      | Inr (choice # others) \<Rightarrow>
          if requested choice = []
          then Stop (final_answer env choice)
                 (st\<lparr>model_inputs := model_inputs st @ [messages st]\<rparr>)
          else
            (case run_tool_calls env (requested choice) (asked st (content choice) (requested choice)) of
               (Some exc, st2) \<Rightarrow> Stop (Inl exc) st2
             | (None, st2) \<Rightarrow> Continue st2))"
  by (simp add: one_round_def Let_def asked_def split: sum.split list.split)

lemma example_call_llm:
  "call_llm (example_env model backend) i msgs = model i msgs"
  by (simp add: call_llm_def example_env_def)


lemma example_decode_arguments:
  "decode_arguments (example_env model backend) tool_call =
     (case example_loads (raw_arguments tool_call) of
        Inr args \<Rightarrow> Inr args
      | Inl exc \<Rightarrow> if is_JSONDecodeError exc then Inr (JObj []) else Inl exc)"
  by (simp add: decode_arguments_def example_env_def)

text \<open>
  C7, as amended. A requested invocation whose capability name is not registered, and
  whose raw arguments \<^verbatim>\<open>json.loads\<close> decodes or rejects with \<^verbatim>\<open>JSONDecodeError\<close>, yields
  the result \<^verbatim>\<open>{"error": "Unknown tool: <name>"}\<close>, whose error field is a string, and
  the run continues: the result is appended to the transcript as the tool-result message
  of the invocation and the loop goes on with the remaining invocations of the round.
\<close>

theorem unregistered_capability_result:
  assumes "tc_name tool_call \<notin> set registered"
    and "decode_arguments env tool_call = Inr args"
  shows "execute env tool_call = Inr (JObj [(''error'', JStr (''Unknown tool: '' @ tc_name tool_call))])
       \<and> run_tool_calls env (tool_call # rest) st =
           run_tool_calls env rest
             (st\<lparr>tool_spans := tool_spans st @
                    [(tc_name tool_call, args,
                      JObj [(''error'', JStr (''Unknown tool: '' @ tc_name tool_call))])],
                 messages := messages st @
                    [Tool (tc_id tool_call) (tc_name tool_call)
                       (json_dumps env
                          (JObj [(''error'', JStr (''Unknown tool: '' @ tc_name tool_call))]))]\<rparr>)"
proof -
  from assms(1) have "TOOL_DISPATCH env (tc_name tool_call) = None"
    by (simp add: dispatch_unregistered)
  then have result: "invoke (TOOL_DISPATCH env) (tc_name tool_call) args
      = JObj [(''error'', JStr (''Unknown tool: '' @ tc_name tool_call))]"
    by (simp add: invoke_def)
  moreover have "webhook_due (tc_name tool_call)
      (JObj [(''error'', JStr (''Unknown tool: '' @ tc_name tool_call))]) = Inr False"
    using assms(1) by (rule webhook_not_due_unregistered)
  ultimately show ?thesis
    using assms(2) by (simp add: execute_def Let_def)
qed

theorem unregistered_capability_result_witness:
  "''lookup_price'' \<notin> set registered
   \<and> execute (example_env (model_says ''ok'') backend_down)
         \<lparr>tc_id = ''call_1'', tc_name = ''lookup_price'', tc_arguments = ''{}''\<rparr>
       = Inr (JObj [(''error'', JStr ''Unknown tool: lookup_price'')])
   \<and> run_tool_calls (example_env (model_says ''ok'') backend_down)
         [\<lparr>tc_id = ''call_1'', tc_name = ''lookup_price'', tc_arguments = ''{}''\<rparr>]
         (initial_state ''system'' ''price of aspirin?'')
       = (None,
          \<lparr>messages = [System ''system'', User ''price of aspirin?'',
                        Tool ''call_1'' ''lookup_price'' ''{\"error\": \"Unknown tool: lookup_price\"}''],
            model_inputs = [],
            tool_spans = [(''lookup_price'', JObj [],
                           JObj [(''error'', JStr ''Unknown tool: lookup_price'')])]\<rparr>)"
proof -
  have h: "tc_name \<lparr>tc_id = ''call_1'', tc_name = ''lookup_price'', tc_arguments = ''{}''\<rparr>
             \<notin> set registered"
    by (simp add: registered_def)
  have d: "decode_arguments (example_env (model_says ''ok'') backend_down)
             \<lparr>tc_id = ''call_1'', tc_name = ''lookup_price'', tc_arguments = ''{}''\<rparr> = Inr (JObj [])"
    by (simp add: decode_arguments_def raw_arguments_def example_env_def loads_empty_object)
  show ?thesis
    using unregistered_capability_result
      [OF h d, of "[]" "initial_state ''system'' ''price of aspirin?''"]
    by (simp add: initial_state_def registered_def)
       (simp add: example_env_def encode_string_def escape_char_def)
qed

text \<open>
  C7 as stated fails: when \<^verbatim>\<open>json.loads\<close> raises another exception on the raw
  arguments, here \<^verbatim>\<open>RecursionError\<close> on a deeply nested text, line 240 raises before the
  registry is consulted; the executor yields no result and the inner loop ends with the
  exception, which the handler of line 316 receives.
\<close>

theorem unregistered_capability_counterexample:
  "''lookup_price'' \<notin> set registered
   \<and> execute (example_env (model_says ''ok'') backend_down)
         \<lparr>tc_id = ''call_1'', tc_name = ''lookup_price'', tc_arguments = deep_nesting\<rparr>
       = Inl (Exn RecursionError
           (''maximum recursion depth exceeded while decoding a JSON array '' @
            ''from a unicode string''))
   \<and> run_tool_calls (example_env (model_says ''ok'') backend_down)
         [\<lparr>tc_id = ''call_1'', tc_name = ''lookup_price'', tc_arguments = deep_nesting\<rparr>]
         (initial_state ''system'' ''price of aspirin?'')
       = (Some (Exn RecursionError
            (''maximum recursion depth exceeded while decoding a JSON array '' @
             ''from a unicode string'')),
          initial_state ''system'' ''price of aspirin?'')"
proof -
  have "decode_arguments (example_env (model_says ''ok'') backend_down)
          \<lparr>tc_id = ''call_1'', tc_name = ''lookup_price'', tc_arguments = deep_nesting\<rparr>
        = Inl (Exn RecursionError
           (''maximum recursion depth exceeded while decoding a JSON array '' @
            ''from a unicode string''))"
    by (simp add: example_decode_arguments raw_arguments_def deep_nesting_not_empty
          loads_deep_nesting is_JSONDecodeError_def)
  then show ?thesis
    by (simp add: registered_def execute_def)
qed










section \<open>The capability functions and the backend\<close>

text \<open>
  An unreachable backend is a \<^verbatim>\<open>RequestException\<close> of the HTTP call: each function
  returns its shape with the safe defaults and the error text.
\<close>

lemma availability_backend_unreachable:
  assumes "http env (GetAvailability medicine_name) = Inl exc" and "is_RequestException exc"
  shows "check_medicine_availability env medicine_name =
           Inr (availability_result False 0 False (JStr (''Request error: '' @ exc_str exc)))"
  using assms by (simp add: check_medicine_availability_def try_bind_def)

lemma create_order_backend_unreachable:
  assumes "http env (PostOrder customer_id medicine_name quantity) = Inl exc"
    and "is_RequestException exc"
  shows "create_order env customer_id medicine_name quantity =
           Inr (order_result (JStr ''rejected'') JNull (JStr ''Failed to contact backend service'')
                  (JStr (''Request error: '' @ exc_str exc)))"
  using assms by (simp add: create_order_def try_bind_def)

lemma list_lookup_backend_unreachable:
  assumes "http env request = Inl exc" and "is_RequestException exc"
  shows "list_lookup env request key =
           Inr (JObj [(key, JArr []), (''error'', JStr (''Request error: '' @ exc_str exc))])"
  using assms by (simp add: list_lookup_def try_bind_def)

text \<open>
  The two list lookups guard the shape of the decoded body and raise only what the
  HTTP layer raises outside \<^verbatim>\<open>RequestException\<close> and \<^verbatim>\<open>ValueError\<close>.
\<close>

lemma list_lookup_returns:
  assumes "\<And>exc. http env request = Inl exc \<Longrightarrow> is_RequestException exc \<or> is_ValueError exc"
    and "\<And>response exc. http env request = Inr response \<Longrightarrow> json_body response = Inl exc
           \<Longrightarrow> is_RequestException exc \<or> is_ValueError exc"
  shows "\<exists>items err. list_lookup env request key = Inr (JObj [(key, JArr items), (''error'', err)])"
proof (cases "http env request")
  case (Inl exc)
  with assms(1) show ?thesis
    by (auto simp: list_lookup_def try_bind_def)
next
  case (Inr response)
  show ?thesis
  proof (cases "json_body response")
    case (Inl exc)
    with Inr assms(2) [OF Inr Inl] show ?thesis
      by (auto simp: list_lookup_def try_bind_def raise_for_status_def is_RequestException_def)
  next
    case body: (Inr data)
    with Inr show ?thesis
      by (auto simp: list_lookup_def try_bind_def raise_for_status_def is_RequestException_def)
  qed
qed

text \<open>
  C9. The claim is that none of the four capability functions ever raises. The handlers
  of \<^verbatim>\<open>check_medicine_availability\<close> catch \<^verbatim>\<open>RequestException\<close> and \<^verbatim>\<open>ValueError\<close> only:
  when the backend answers 200 with a JSON document that is not an object, here the
  empty list, \<^verbatim>\<open>data.get\<close> raises \<^verbatim>\<open>AttributeError\<close> and the function raises it. So
  does \<^verbatim>\<open>create_order\<close> (\<open>create_order_on_list_body\<close>); the two list lookups test
  the shape of the body first (\<open>list_lookup_returns\<close>).
\<close>

theorem availability_raises_on_list_body:
  "check_medicine_availability (example_env model (backend_replies (JArr []))) (JStr ''Paracetamol'')
     = Inl (Exn AttributeError (quoted ''list'' @ '' object has no attribute '' @ quoted ''get''))"
  by (simp add: check_medicine_availability_def example_env_def backend_replies_def try_bind_def
        raise_for_status_def is_RequestException_def is_ValueError_def)

section \<open>The transcript\<close>

lemma pending_after_append:
  "pending_after p (xs @ ys) =
     (case pending_after p xs of None \<Rightarrow> None | Some q \<Rightarrow> pending_after q ys)"
  by (induction p xs rule: pending_after.induct) simp_all

lemma pending_after_answers:
  "pending_after tcs (map (tool_message env) tcs) = Some []"
  by (induction tcs) (simp_all add: tool_message_def)

lemma run_tool_calls_model_inputs:
  "model_inputs (snd (run_tool_calls env tcs st)) = model_inputs st"
  by (induction tcs arbitrary: st) (simp_all add: Let_def split: sum.splits)

lemma run_tool_calls_prefix:
  "prefix (messages st) (messages (snd (run_tool_calls env tcs st)))"
proof (induction tcs arbitrary: st)
  case Nil
  show ?case by simp
next
  case (Cons tc tcs)
  show ?case
  proof (cases "decode_arguments env tc")
    case (Inl exc)
    then show ?thesis by simp
  next
    case args: (Inr args)
    show ?thesis
    proof (cases "webhook_due (tc_name tc) (invoke (TOOL_DISPATCH env) (tc_name tc) args)")
      case (Inl exc)
      with args show ?thesis by (simp add: Let_def)
    next
      case (Inr due)
      have "prefix (messages st) (messages st @ [Tool (tc_id tc) (tc_name tc)
              (json_dumps env (invoke (TOOL_DISPATCH env) (tc_name tc) args))])"
        by simp
      then show ?thesis
        using args Inr by (auto simp: Let_def intro: prefix_order.trans [OF _ Cons.IH])
    qed
  qed
qed

lemma run_tool_calls_complete:
  "fst (run_tool_calls env tcs st) = None \<Longrightarrow>
     messages (snd (run_tool_calls env tcs st)) = messages st @ map (tool_message env) tcs"
proof (induction tcs arbitrary: st)
  case Nil
  show ?case by simp
next
  case (Cons tc tcs)
  show ?case
  proof (cases "decode_arguments env tc")
    case (Inl exc)
    with Cons.prems show ?thesis by simp
  next
    case args: (Inr args)
    show ?thesis
    proof (cases "webhook_due (tc_name tc) (invoke (TOOL_DISPATCH env) (tc_name tc) args)")
      case (Inl exc)
      with args Cons.prems show ?thesis by (simp add: Let_def)
    next
      case (Inr due)
      with args Cons.prems Cons.IH show ?thesis
        by (simp add: Let_def tool_message_def execute_def)
    qed
  qed
qed

lemma chain_extend:
  assumes "sorted_wrt prefix (xs @ [m])" and "prefix m m'"
  shows "sorted_wrt prefix (xs @ [m, m'])"
proof -
  have "\<forall>x\<in>set xs. prefix x m'"
    using assms by (auto simp: sorted_wrt_append intro: prefix_order.trans)
  with assms show ?thesis
    by (auto simp: sorted_wrt_append)
qed

lemma snapshots_ok_step:
  assumes "snapshots_ok seed st" and "round_trip (messages st)"
    and "model_inputs st' = model_inputs st @ [messages st]"
    and "prefix (messages st) (messages st')"
  shows "snapshots_ok seed st'"
proof -
  have "sorted_wrt prefix ((seed # model_inputs st) @ [messages st, messages st'])"
    using assms(1,4) by (intro chain_extend) (simp_all add: snapshots_ok_def)
  with assms show ?thesis
    by (simp add: snapshots_ok_def)
qed

lemma one_round_Continue:
  assumes "one_round env st = Continue st'"
  shows "\<exists>c tcs. run_tool_calls env tcs (asked st c tcs) = (None, st')"
proof (cases "call_llm env (length (model_inputs st)) (messages st)")
  case (Inl exc)
  with assms show ?thesis by (simp add: one_round_unfold)
next
  case (Inr choices)
  show ?thesis
  proof (cases choices)
    case Nil
    with Inr assms show ?thesis by (simp add: one_round_unfold)
  next
    case (Cons choice others)
    show ?thesis
    proof (cases "requested choice = []")
      case True
      with Inr Cons assms show ?thesis by (simp add: one_round_unfold)
    next
      case False
      obtain r st2 where run:
        "run_tool_calls env (requested choice) (asked st (content choice) (requested choice)) = (r, st2)"
        by (cases "run_tool_calls env (requested choice) (asked st (content choice) (requested choice))")
      with Inr Cons False assms have "r = None \<and> st2 = st'"
        by (cases r) (simp_all add: one_round_unfold)
      with run show ?thesis by blast
    qed
  qed
qed

lemma one_round_Stop:
  assumes "one_round env st = Stop r st'"
  shows "st' = st\<lparr>model_inputs := model_inputs st @ [messages st]\<rparr>
         \<or> (\<exists>c tcs exc. run_tool_calls env tcs (asked st c tcs) = (Some exc, st'))"
proof (cases "call_llm env (length (model_inputs st)) (messages st)")
  case (Inl exc)
  with assms show ?thesis by (simp add: one_round_unfold)
next
  case (Inr choices)
  show ?thesis
  proof (cases choices)
    case Nil
    with Inr assms show ?thesis by (simp add: one_round_unfold)
  next
    case (Cons choice others)
    show ?thesis
    proof (cases "requested choice = []")
      case True
      with Inr Cons assms show ?thesis by (simp add: one_round_unfold)
    next
      case False
      obtain r2 st2 where run:
        "run_tool_calls env (requested choice) (asked st (content choice) (requested choice)) = (r2, st2)"
        by (cases "run_tool_calls env (requested choice) (asked st (content choice) (requested choice))")
      with Inr Cons False assms obtain exc where "r2 = Some exc" and "st2 = st'"
        by (cases r2) (simp_all add: one_round_unfold)
      with run show ?thesis by blast
    qed
  qed
qed

lemma after_tool_calls:
  assumes "run_tool_calls env tcs (asked st c tcs) = (r, st')"
  shows "model_inputs st' = model_inputs st @ [messages st]"
    and "prefix (messages st) (messages st')"
    and "r = None \<Longrightarrow> messages st' = messages st @ Assistant c tcs # map (tool_message env) tcs"
proof -
  show "model_inputs st' = model_inputs st @ [messages st]"
    using run_tool_calls_model_inputs [of env tcs "asked st c tcs"] assms
    by (simp add: asked_def)
  have "prefix (messages (asked st c tcs)) (messages st')"
    using run_tool_calls_prefix [of "asked st c tcs" env tcs] assms by simp
  then show "prefix (messages st) (messages st')"
    by (auto simp: asked_def elim: append_prefixD)
  show "messages st' = messages st @ Assistant c tcs # map (tool_message env) tcs" if "r = None"
    using run_tool_calls_complete [of env tcs "asked st c tcs"] assms that
    by (simp add: asked_def)
qed

lemma round_trip_extended:
  assumes "round_trip ms"
  shows "round_trip (ms @ Assistant c tcs # map (tool_message env) tcs)"
  using assms by (simp add: round_trip_def pending_after_append pending_after_answers)

lemma one_round_keeps_invariant:
  assumes "one_round env st = Continue st'" and "snapshots_ok seed st" and "round_trip (messages st)"
  shows "snapshots_ok seed st' \<and> round_trip (messages st')"
proof -
  obtain c tcs where run: "run_tool_calls env tcs (asked st c tcs) = (None, st')"
    using one_round_Continue [OF assms(1)] by blast
  have "snapshots_ok seed st'"
    using assms(2,3) after_tool_calls(1,2) [OF run] by (rule snapshots_ok_step)
  moreover have "round_trip (messages st')"
    using after_tool_calls(3) [OF run] round_trip_extended [OF assms(3)] by simp
  ultimately show ?thesis ..
qed

lemma one_round_stops_with_invariant:
  assumes "one_round env st = Stop r st'" and "snapshots_ok seed st" and "round_trip (messages st)"
  shows "snapshots_ok seed st'"
  using one_round_Stop [OF assms(1)]
proof (elim disjE exE)
  assume "st' = st\<lparr>model_inputs := model_inputs st @ [messages st]\<rparr>"
  then have "model_inputs st' = model_inputs st @ [messages st]"
    and "prefix (messages st) (messages st')"
    by simp_all
  with assms(2,3) show ?thesis
    by (rule snapshots_ok_step)
next
  fix c tcs exc
  assume run: "run_tool_calls env tcs (asked st c tcs) = (Some exc, st')"
  show ?thesis
    using assms(2,3) after_tool_calls(1,2) [OF run] by (rule snapshots_ok_step)
qed

lemma agent_rounds_snapshots:
  assumes "snapshots_ok seed st" and "round_trip (messages st)"
  shows "snapshots_ok seed (snd (agent_rounds env k st))"
  using assms
proof (induction k arbitrary: st)
  case 0
  then show ?case by simp
next
  case (Suc k)
  show ?case
  proof (cases "one_round env st")
    case (Continue st')
    have "snapshots_ok seed st'" and "round_trip (messages st')"
      using one_round_keeps_invariant [OF Continue Suc.prems] by blast+
    then have "snapshots_ok seed (snd (agent_rounds env k st'))"
      by (rule Suc.IH)
    with Continue show ?thesis
      by simp
  next
    case (Stop r st')
    have "snapshots_ok seed st'"
      using Stop Suc.prems by (rule one_round_stops_with_invariant)
    with Stop show ?thesis
      by simp
  qed
qed

text \<open>
  C3. Every transcript passed to the reasoning model has the round-trip property: each
  assistant message with N requested invocations is followed by exactly N tool-result
  messages, one for each invocation id, in request order. Nothing is removed or
  reordered: the seed is a prefix of the first transcript passed to the model, each of
  these transcripts is a prefix of the next, and the last is a prefix of the final one.
\<close>

theorem transcript_round_trip:
  "list_all round_trip (model_inputs (snd (run_loop env system_prompt user_input max_steps)))
   \<and> sorted_wrt prefix
       ([System system_prompt, User user_input]
          # model_inputs (snd (run_loop env system_prompt user_input max_steps))
          @ [messages (snd (run_loop env system_prompt user_input max_steps))])"
proof -
  have "snapshots_ok [System system_prompt, User user_input] (initial_state system_prompt user_input)"
    by (simp add: snapshots_ok_def initial_state_def)
  moreover have "round_trip (messages (initial_state system_prompt user_input))"
    by (simp add: round_trip_def initial_state_def)
  ultimately show ?thesis
    using agent_rounds_snapshots [of "[System system_prompt, User user_input]"
        "initial_state system_prompt user_input" env "nat max_steps"]
    by (simp add: snapshots_ok_def run_loop_def)
qed

lemma example_model_inputs:
  "model_inputs (snd (run_loop
      (example_env (model_requests_then_says [ask_availability, ask_price] backend_is_down)
         backend_down)
      ''system'' ''I need 5 Paracetamol'' 5))
   = [[System ''system'', User ''I need 5 Paracetamol''],
      [System ''system'', User ''I need 5 Paracetamol'',
       Assistant None [ask_availability, ask_price],
       Tool ''call_1'' ''check_medicine_availability''
         ''{\"available\": false, \"stock_quantity\": 0, \"prescription_required\": false, \"error\": \"Request error: Connection refused\"}'',
       Tool ''call_2'' ''lookup_price'' ''{\"error\": \"Unknown tool: lookup_price\"}'']]"
  by code_simp

theorem transcript_round_trip_witness:
  "model_inputs (snd (run_loop
      (example_env (model_requests_then_says [ask_availability, ask_price] backend_is_down)
         backend_down)
      ''system'' ''I need 5 Paracetamol'' 5))
   = [[System ''system'', User ''I need 5 Paracetamol''],
      [System ''system'', User ''I need 5 Paracetamol'',
       Assistant None [ask_availability, ask_price],
       Tool ''call_1'' ''check_medicine_availability''
         ''{\"available\": false, \"stock_quantity\": 0, \"prescription_required\": false, \"error\": \"Request error: Connection refused\"}'',
       Tool ''call_2'' ''lookup_price'' ''{\"error\": \"Unknown tool: lookup_price\"}'']]
   \<and> list_all round_trip (model_inputs (snd (run_loop
      (example_env (model_requests_then_says [ask_availability, ask_price] backend_is_down)
         backend_down)
      ''system'' ''I need 5 Paracetamol'' 5)))"
  using transcript_round_trip
    [of "example_env (model_requests_then_says [ask_availability, ask_price] backend_is_down)
           backend_down" "''system''" "''I need 5 Paracetamol''" 5]
  by (simp only: example_model_inputs simp_thms)

section \<open>The step budget\<close>








section \<open>The final answer\<close>

text \<open>
  C6, as amended. When the model call of a round returns a response without requested
  invocations, the run ends in that round with an answer made from the text of the
  response: the decoded mapping itself if the text decodes to one; the mapping of
  \<^verbatim>\<open>message\<close> to the raw text and of \<^verbatim>\<open>status\<close> to \<^verbatim>\<open>unknown\<close> if the text decodes to
  anything else or \<^verbatim>\<open>json.loads\<close> rejects it with \<^verbatim>\<open>JSONDecodeError\<close>; and the answer of
  the handler of line 316, with status \<^verbatim>\<open>error\<close>, if \<^verbatim>\<open>json.loads\<close> raises anything
  else. The witness is the example of the text \<^verbatim>\<open>hello\<close>.
\<close>

theorem final_answer_parsing:
  assumes "call_llm env (length (model_inputs st)) (messages st) = Inr (choice # others)"
    and "requested choice = []"
  shows "caught (fst (agent_rounds env (Suc k) st)) =
           (case json_loads env (content_text choice) of
              Inr (JObj parsed) \<Rightarrow> parsed
            | Inr _ \<Rightarrow> [(''message'', JStr (content_text choice)), (''status'', JStr ''unknown'')]
            | Inl exc \<Rightarrow>
                if is_JSONDecodeError exc
                then [(''message'', JStr (content_text choice)), (''status'', JStr ''unknown'')]
                else [(''message'', JStr (''Unexpected error in agent: '' @ exc_str exc)),
                      (''status'', JStr ''error'')])"
proof -
  have "one_round env st = Stop (final_answer env choice)
          (st\<lparr>model_inputs := model_inputs st @ [messages st]\<rparr>)"
    using assms by (simp add: one_round_unfold)
  then show ?thesis
    by (simp add: final_answer_def caught_def wrapped_def unexpected_error_answer_def
             split: sum.splits json.splits)
qed

lemma decode_hello: "json_decode ''hello'' = None"
  by (simp add: json_decode_def skip_ws_def is_ws_def scan_number_def is_digit_def)

lemma loads_hello: "example_loads ''hello'' = Inl (Exn JSONDecodeError ''Expecting value'')"
  by (simp add: example_loads_def decode_hello recursion_limit_def)

theorem final_answer_parsing_witness:
  "caught (fst (agent_rounds (example_env (model_says ''hello'') backend_down) (Suc 4)
          (initial_state ''system'' ''hi'')))
     = [(''message'', JStr ''hello''), (''status'', JStr ''unknown'')]"
proof -
  let ?env = "example_env (model_says ''hello'') backend_down"
  have call: "call_llm ?env (length (model_inputs (initial_state ''system'' ''hi'')))
                (messages (initial_state ''system'' ''hi''))
              = Inr [\<lparr>content = Some ''hello'', tool_calls = None\<rparr>]"
    by (simp add: example_call_llm model_says_def)
  have none: "requested \<lparr>content = Some ''hello'', tool_calls = None\<rparr> = []"
    by (simp add: requested_def)
  have loads: "json_loads ?env ''hello'' = Inl (Exn JSONDecodeError ''Expecting value'')"
    by (simp add: example_env_def loads_hello)
  show ?thesis
    using final_answer_parsing [OF call none, of 4]
    by (simp add: content_text_def loads is_JSONDecodeError_def)
qed

text \<open>
  C6 as stated fails: a final text on which \<^verbatim>\<open>json.loads\<close> raises \<^verbatim>\<open>RecursionError\<close>
  does not decode, and the answer is not the wrapped text.
\<close>

theorem final_answer_parsing_counterexample:
  "fst (fst (run_agent_body (example_env (model_says deep_nesting) backend_down)
          ''system'' ''hi'' 5))
     = [(''message'', JStr (''Unexpected error in agent: maximum recursion depth exceeded '' @
            ''while decoding a JSON array from a unicode string'')),
        (''status'', JStr ''error'')]
   \<and> fst (fst (run_agent_body (example_env (model_says deep_nesting) backend_down)
          ''system'' ''hi'' 5))
     \<noteq> [(''message'', JStr deep_nesting), (''status'', JStr ''unknown'')]"
proof -
  have "json_loads (example_env (model_says deep_nesting) backend_down) deep_nesting
      = Inl (Exn RecursionError
           (''maximum recursion depth exceeded while decoding a JSON array '' @
            ''from a unicode string''))"
    by (simp add: example_env_def loads_deep_nesting)
  then show ?thesis
    by (simp add: run_agent_body_def run_loop_def initial_state_def eval_nat_numeral
          one_round_unfold example_call_llm model_says_def requested_def final_answer_def
          content_text_def is_JSONDecodeError_def caught_def unexpected_error_answer_def)
qed






section \<open>A step budget of zero\<close>

text \<open>
  With a budget that is not positive the loop body never runs: from line 210 on, the run
  calls neither the model nor a tool and returns the step-limit answer.
\<close>

lemma run_agent_body_without_budget:
  assumes "max_steps \<le> 0"
  shows "run_agent_body env system_prompt user_input max_steps
           = ((step_limit_answer, end_trace env), initial_state system_prompt user_input)"
  using assms by (simp add: run_agent_body_def run_loop_def caught_def)

text \<open>
  C10. The claim is that \<^verbatim>\<open>run\<close> called with a budget of zero returns the step-limit
  answer. \<^verbatim>\<open>run_agent\<close> does not get that far: line 208 raises first.
\<close>

theorem run_agent_without_budget_raises:
  "run_agent env user_input customer_id 0 = Inl (Exn KeyError (quoted '' \"message\"''))"
  by (simp add: run_agent_def format_system_prompt)

end
